theory Spec2Isabelle
  imports Complex_Main "HOL-Library.Product_Lexorder"
begin

section \<open>Python values the combat code relies on\<close>

text \<open>
  The exceptions the modelled code can raise. Nothing in the repository catches an
  exception, so a raise ends the program; a function that can raise returns
  \<open>py_error + result\<close> and the state at the raise is not observed by anyone.
\<close>

datatype py_error = KeyError | AttributeError | IndexError | NotImplementedError

text \<open>\<open>str(n)\<close> for a Python integer, as the f-strings of the logs print it.\<close>

definition digit_char :: "nat \<Rightarrow> char" where
  "digit_char d = ''0123456789'' ! d"

function str_nat :: "nat \<Rightarrow> string" where
  "str_nat n = (if n < 10 then [digit_char n] else str_nat (n div 10) @ [digit_char (n mod 10)])"
  by pat_completeness auto
termination
  by (relation "measure id") auto

declare str_nat.simps [simp del]

definition str_int :: "int \<Rightarrow> string" where
  "str_int i = (if i < 0 then ''-'' @ str_nat (nat (- i)) else str_nat (nat i))"

text \<open>
  \<open>xs[i]\<close>: a negative index counts from the end, and an index outside
  \<open>-len(xs) .. len(xs) - 1\<close> raises IndexError.
\<close>

definition py_getitem :: "'a list \<Rightarrow> int \<Rightarrow> py_error + 'a" where
  "py_getitem xs i =
     (if 0 \<le> i \<and> i < int (length xs) then Inr (xs ! nat i)
      else if i < 0 \<and> - int (length xs) \<le> i then Inr (xs ! nat (int (length xs) + i))
      else Inl IndexError)"

text \<open>
  \<open>random.choice(xs)\<close>: \<open>k\<close> is the raw draw of the generator; the element chosen is the
  one at position \<open>k mod len(xs)\<close>, so every position can be chosen and no other, and an
  empty sequence raises IndexError.
\<close>

definition random_choice :: "'a list \<Rightarrow> nat \<Rightarrow> py_error + 'a" where
  "random_choice xs k = (if xs = [] then Inl IndexError else Inr (xs ! (k mod length xs)))"

text \<open>
  \<open>sorted(xs, key=f, reverse=True)\<close>. The keys are computed once per element; the sort is
  stable also under \<open>reverse=True\<close> (CPython reverses the list, sorts it ascending with its
  stable sort and reverses the result), so elements with equal keys keep their order.
  The argument is the list already decorated with its keys.
\<close>

definition sorted_reverse :: "('k::linorder \<times> 'a) list \<Rightarrow> 'a list" where
  "sorted_reverse kxs = map snd (rev (sort_key fst (rev kxs)))"

text \<open>The position of the first element that satisfies a test: \<open>next(...)\<close> over a list.\<close>

fun find_first :: "('a \<Rightarrow> bool) \<Rightarrow> 'a list \<Rightarrow> nat option" where
  "find_first P [] = None"
| "find_first P (x # xs) = (if P x then Some 0 else map_option Suc (find_first P xs))"

text \<open>
  \<open>xs.remove(x)\<close> for an object \<open>x\<close> that sits at position \<open>i\<close> and nowhere before it:
  the classes of the game define no \<open>__eq__\<close>, so \<open>remove\<close> compares by identity.
\<close>

definition remove_at :: "nat \<Rightarrow> 'a list \<Rightarrow> 'a list" where
  "remove_at i xs = take i xs @ drop (Suc i) xs"

section \<open>Skill effects (skills.py, class SkillEffects)\<close>

datatype effect_class = Invincible | ReflectiveShield

record effect =
  effect_class :: effect_class
  effect_name :: string
  effect_description :: string
  use_count :: int
  effect_belongs_to :: string

definition Invincible_init :: effect where
  "Invincible_init =
     \<lparr>effect_class = Invincible, effect_name = ''Invincible'',
      effect_description = ''Blocks any incoming attacks.'',
      use_count = 1, effect_belongs_to = ''Illusionary Aura''\<rparr>"

definition ReflectiveShield_init :: effect where
  "ReflectiveShield_init =
     \<lparr>effect_class = ReflectiveShield, effect_name = ''Reflective Shield'',
      effect_description = ''Reflects any incoming attacks back to the enemies.'',
      use_count = 1, effect_belongs_to = ''Reflective Shield''\<rparr>"

section \<open>Skills: data (skills.py, class BaseSkill)\<close>

text \<open>
  A message of \<open>message_displays\<close> is a format string with the named fields
  \<open>{character}\<close> and \<open>{target}\<close>; it is kept as its literal pieces and its fields.
  \<open>format_msg\<close> is \<open>str.format\<close> with the keyword \<open>character\<close> and, when given, the
  keyword \<open>target\<close>: a field whose keyword is not passed raises KeyError.
\<close>

datatype piece = Text string | CharacterField | TargetField

fun format_msg :: "piece list \<Rightarrow> string \<Rightarrow> string option \<Rightarrow> py_error + string" where
  "format_msg [] c t = Inr []"
| "format_msg (Text s # ps) c t =
     (case format_msg ps c t of Inl e \<Rightarrow> Inl e | Inr r \<Rightarrow> Inr (s @ r))"
| "format_msg (CharacterField # ps) c t =
     (case format_msg ps c t of Inl e \<Rightarrow> Inl e | Inr r \<Rightarrow> Inr (c @ r))"
| "format_msg (TargetField # ps) c t =
     (case t of None \<Rightarrow> Inl KeyError
      | Some tn \<Rightarrow> (case format_msg ps c t of Inl e \<Rightarrow> Inl e | Inr r \<Rightarrow> Inr (tn @ r)))"

datatype skill_class =
  BaseSkill | WhiskerGuard | ClawSwipe | IllusionaryAura | ReflectiveShield_skill
  | HealingPurr | LuckyCharm | PurrfectStrike | CripplingStrike

record skill =
  skill_class :: skill_class
  skill_name :: string
  description :: string
  magic_points_cost :: int
  speed_points_cost :: int
  require_target :: bool
  message_displays :: "piece list list"
  belongs_to :: string

text \<open>
  A row of \<open>data/skill_attributes.csv\<close>. The data file is not among the source files of the repository, so
  the table \<open>skill_attributes\<close> is a parameter of the constructors; the cost cells are the
  integers \<open>int(...)\<close> reads from them.
\<close>

record skill_attr =
  attr_name :: string
  attr_mp_cost :: int
  attr_sp_cost :: int
  attr_require_target :: string
  attr_belongs_to :: string

text \<open>\<open>str.lower\<close> on the letters of ASCII, which is all the comparison with "yes" needs.\<close>

definition lower_char :: "char \<Rightarrow> char" where
  "lower_char c =
     (case map_of (zip ''ABCDEFGHIJKLMNOPQRSTUVWXYZ'' ''abcdefghijklmnopqrstuvwxyz'') c of
        None \<Rightarrow> c | Some d \<Rightarrow> d)"

definition str_lower :: "string \<Rightarrow> string" where
  "str_lower s = map lower_char s"

definition class_name :: "skill_class \<Rightarrow> string" where
  "class_name k =
     (case k of BaseSkill \<Rightarrow> ''BaseSkill'' | WhiskerGuard \<Rightarrow> ''WhiskerGuard''
      | ClawSwipe \<Rightarrow> ''ClawSwipe'' | IllusionaryAura \<Rightarrow> ''IllusionaryAura''
      | ReflectiveShield_skill \<Rightarrow> ''ReflectiveShield'' | HealingPurr \<Rightarrow> ''HealingPurr''
      | LuckyCharm \<Rightarrow> ''LuckyCharm'' | PurrfectStrike \<Rightarrow> ''PurrfectStrike''
      | CripplingStrike \<Rightarrow> ''CripplingStrike'')"

text \<open>
  \<open>BaseSkill.__init__\<close> with \<open>_assign_skill_attributes\<close>, after the subclass has set its
  description and messages.
\<close>

definition assign_skill_attributes ::
  "(string \<rightharpoonup> skill_attr) \<Rightarrow> skill_class \<Rightarrow> string \<Rightarrow> piece list list \<Rightarrow> py_error + skill" where
  "assign_skill_attributes skill_attributes k descr msgs =
     (case skill_attributes (class_name k) of
        None \<Rightarrow> Inl KeyError
      | Some attr \<Rightarrow>
          Inr \<lparr>skill_class = k, skill_name = attr_name attr, description = descr,
               magic_points_cost = attr_mp_cost attr, speed_points_cost = attr_sp_cost attr,
               require_target = (str_lower (attr_require_target attr) = ''yes''),
               message_displays = msgs, belongs_to = attr_belongs_to attr\<rparr>)"

definition WhiskerGuard_init :: "(string \<rightharpoonup> skill_attr) \<Rightarrow> py_error + skill" where
  "WhiskerGuard_init skill_attributes =
     assign_skill_attributes skill_attributes WhiskerGuard
       ''Increases the character's defense by a random amount with cat-like reflexes.''
       [[Text ''With a swift movement, '', CharacterField,
         Text '' activates Whisker Guard, shielding itself from harm.''],
        [CharacterField, Text '' activates Whisker Guard, increasing their own defense.''],
        [Text ''By focusing their inner cat instincts, '', CharacterField,
         Text '' empowers their defense with Whisker Guard, ready to withstand any attack.'']]"

definition ClawSwipe_init :: "(string \<rightharpoonup> skill_attr) \<Rightarrow> py_error + skill" where
  "ClawSwipe_init skill_attributes =
     assign_skill_attributes skill_attributes ClawSwipe
       ''Unleash a flurry of razor-sharp claws, striking enemies and removing their defense.''
       [[Text ''The sound of claws tearing through flesh fills the air as '', CharacterField,
         Text '' delivers a devastating clawswipe, leaving '', TargetField,
         Text '' defenseless!''],
        [Text ''A flurry of razor-sharp claws slices through the air as '', CharacterField,
         Text '' executes a powerful clawswipe, removing '', TargetField,
         Text '''s defenses!''],
        [TargetField, Text '' is caught off guard as '', CharacterField,
         Text '' launches a surprise attack with a ferocious clawswipe, rendering '',
         TargetField, Text '''s defenses useless!'']]"

definition IllusionaryAura_init :: "(string \<rightharpoonup> skill_attr) \<Rightarrow> py_error + skill" where
  "IllusionaryAura_init skill_attributes =
     assign_skill_attributes skill_attributes IllusionaryAura
       ''Creates a mesmerizing aura that confuses enemies, causing them to miss their attacks.''
       [[CharacterField,
         Text '' casts Illusionary Aura, creating a captivating aura around themselves.''],
        [Text ''The mesmerizing aura of '', CharacterField,
         Text '''s Illusionary Aura confuses the enemy, causing them to miss their attack!''],
        [Text ''The enemy's attack goes astray as they are bewildered by the illusionary aura surrounding '',
         CharacterField, Text ''.'']]"

definition ReflectiveShield_skill_init :: "(string \<rightharpoonup> skill_attr) \<Rightarrow> py_error + skill" where
  "ReflectiveShield_skill_init skill_attributes =
     assign_skill_attributes skill_attributes ReflectiveShield_skill
       ''Creates a magical barrier that reflects a portion of the next incoming spell back at the enemy.''
       [[Text ''A shimmering shield envelops '', CharacterField,
         Text '', ready to reflect incoming physical damage from '', TargetField, Text ''.''],
        [CharacterField,
         Text '' channels their magic, creating a barrier of reflection to counter '',
         TargetField, Text '''s assault.''],
        [CharacterField, Text '''s Reflective Shield sparkles with energy, poised to send '',
         TargetField, Text '''s strength back at them.'']]"

definition HealingPurr_init :: "(string \<rightharpoonup> skill_attr) \<Rightarrow> py_error + skill" where
  "HealingPurr_init skill_attributes =
     assign_skill_attributes skill_attributes HealingPurr
       ''Restores health points and brings comfort through the power of purrs.''
       [[CharacterField,
         Text '' emits a gentle purr, enveloping themselves in healing energy.''],
        [Text ''The soothing purrs of '', CharacterField,
         Text '' resonate, restoring their health points.''],
        [CharacterField,
         Text '''s healing purr fills the air, bringing comfort and replenishing their vitality.'']]"

definition LuckyCharm_init :: "(string \<rightharpoonup> skill_attr) \<Rightarrow> py_error + skill" where
  "LuckyCharm_init skill_attributes =
     assign_skill_attributes skill_attributes LuckyCharm
       ''Channel inner luck to create a protective charm, increasing its luck and favoring positive outcomes.''
       [[Text ''The air around '', CharacterField,
         Text '' shimmers with luck as the lucky charm takes effect.''],
        [Text ''The lucky charm envelops '', CharacterField,
         Text '', infusing them with a heightened sense of favorable outcomes.''],
        [Text ''With the lucky charm activated, '', CharacterField,
         Text '' feels a surge of good luck coursing through their veins.'']]"

definition PurrfectStrike_init :: "(string \<rightharpoonup> skill_attr) \<Rightarrow> py_error + skill" where
  "PurrfectStrike_init skill_attributes =
     assign_skill_attributes skill_attributes PurrfectStrike
       '' Unleash a swift and precise strike, targeting the enemy's weak spot with deadly accuracy, dealing high damage.''
       [[Text ''With lightning speed, '', CharacterField, Text '' lunges at '', TargetField,
         Text '', aiming for a critical hit.''],
        [Text ''The sound of a fierce, focused purr fills the air as '', CharacterField,
         Text '' delivers a devastating blow at '', TargetField, Text ''.''],
        [TargetField, Text '' reels from '', CharacterField,
         Text '''s Purrfect Strike, unable to withstand the precise attack.'']]"

definition CripplingStrike_init :: "(string \<rightharpoonup> skill_attr) \<Rightarrow> py_error + skill" where
  "CripplingStrike_init skill_attributes =
     assign_skill_attributes skill_attributes CripplingStrike
       ''Deliver a precise strike that cripples the target, slowing their movements.''
       [[TargetField, Text '''s agility is hindered by '', CharacterField,
         Text '''s crippling strike!''],
        [Text ''With a calculated strike, '', CharacterField, Text '' impairs '', TargetField,
         Text '''s mobility!''],
        [CharacterField, Text '''s crippling strike disrupts '', TargetField,
         Text '''s flow, hampering their movement!'']]"

section \<open>Characters: data and construction (characters.py, enemies.py)\<close>

datatype character_class = BaseCharacter | Tank | MirrorMage | Healer | Assassin | EnemyCharacter

text \<open>
  The attributes of a character object. \<open>EnemyCharacter.__init__\<close> deletes
  \<open>magic_points\<close>, \<open>skills\<close> and \<open>active_effects\<close>, and the two maxima exist only once a
  constructor has assigned them: an attribute that is absent is \<open>None\<close>, and reading it
  raises AttributeError.
\<close>

record character =
  cls :: character_class
  name :: string
  health_points :: int
  attack_points :: int
  defense_points :: int
  speed_points :: int
  magic_points :: "int option"
  job_class :: string
  luck :: int
  skills :: "skill list option"
  active_effects :: "effect list option"
  character_image :: string
  ascii_art :: "string list"
  starting_column_position :: int
  max_health_points :: "int option"
  max_defense_points :: "int option"

text \<open>
  Rows of \<open>data/job_class_attributes.csv\<close> and \<open>data/enemy_attributes.csv\<close>, and the table
  \<open>ascii_arts\<close> of \<open>resources/ascii_art.py\<close>. None of the three is among the source files
  of the repository, so the tables are parameters; a cell is the integer \<open>int(...)\<close> reads
  from it.
\<close>

record job_attr =
  job_HP :: int
  job_DP :: int
  job_AP :: int
  job_SP :: int
  job_MP :: int
  job_Luck :: int

record enemy_attr =
  enemy_HP :: int
  enemy_DP :: int
  enemy_AP :: int
  enemy_SP :: int
  enemy_Luck :: int

definition assign_job_class_attributes ::
  "(string \<rightharpoonup> job_attr) \<Rightarrow> (string \<rightharpoonup> string list) \<Rightarrow> character \<Rightarrow> string
     \<Rightarrow> py_error + character" where
  "assign_job_class_attributes job_class_attributes ascii_arts self job_class_name =
     (case job_class_attributes job_class_name of
        None \<Rightarrow> Inl KeyError
      | Some attr \<Rightarrow>
          (let self1 = self\<lparr>job_class := job_class_name\<rparr>;
               self2 = self1\<lparr>max_health_points := Some (job_HP attr)\<rparr>;
               self3 = self2\<lparr>max_defense_points := Some (job_DP attr)\<rparr>;
               self4 = self3\<lparr>attack_points := job_AP attr\<rparr>;
               self5 = self4\<lparr>speed_points := job_SP attr\<rparr>;
               self6 = self5\<lparr>magic_points := Some (job_MP attr)\<rparr>;
               self7 = self6\<lparr>luck := job_Luck attr\<rparr>
           in case ascii_arts job_class_name of
                None \<Rightarrow> Inl KeyError
              | Some art \<Rightarrow>
                  (let self8 = self7\<lparr>ascii_art := art\<rparr>;
                       self9 = self8\<lparr>health_points := job_HP attr\<rparr>
                   in Inr (self9\<lparr>defense_points := job_DP attr\<rparr>))))"

definition restore_stats ::
  "(string \<rightharpoonup> job_attr) \<Rightarrow> (string \<rightharpoonup> string list) \<Rightarrow> character \<Rightarrow> py_error + character" where
  "restore_stats job_class_attributes ascii_arts self =
     assign_job_class_attributes job_class_attributes ascii_arts self (job_class self)"

text \<open>
  \<open>BaseCharacter.__init__(name, job_class)\<close>; the class of the object is \<open>k\<close>, and
  \<open>job_class\<close> is assigned only when it is given and not the empty string.
\<close>

definition BaseCharacter_init ::
  "(string \<rightharpoonup> job_attr) \<Rightarrow> (string \<rightharpoonup> string list) \<Rightarrow> character_class \<Rightarrow> string
     \<Rightarrow> string option \<Rightarrow> py_error + character" where
  "BaseCharacter_init job_class_attributes ascii_arts k nm job =
     (let self = \<lparr>cls = k, name = nm, health_points = 0, attack_points = 0,
                   defense_points = 0, speed_points = 0, magic_points = Some 0,
                   job_class = [], luck = 0, skills = Some [], active_effects = Some [],
                   character_image = [], ascii_art = [], starting_column_position = 0,
                   max_health_points = None, max_defense_points = None\<rparr>
      in case job of
           None \<Rightarrow> Inr self
         | Some j \<Rightarrow>
             (if j = [] then Inr self
              else assign_job_class_attributes job_class_attributes ascii_arts self j))"

text \<open>
  The four job classes: the job class is the class name, and the skills are built after
  the attributes have been assigned.
\<close>

definition job_character_init ::
  "(string \<rightharpoonup> job_attr) \<Rightarrow> (string \<rightharpoonup> string list) \<Rightarrow> character_class \<Rightarrow> string
     \<Rightarrow> string \<Rightarrow> py_error + skill \<Rightarrow> py_error + skill \<Rightarrow> py_error + character" where
  "job_character_init job_class_attributes ascii_arts k class_nm nm skill1 skill2 =
     (case BaseCharacter_init job_class_attributes ascii_arts k nm (Some class_nm) of
        Inl e \<Rightarrow> Inl e
      | Inr self \<Rightarrow>
          (case skill1 of
             Inl e \<Rightarrow> Inl e
           | Inr s1 \<Rightarrow>
               (case skill2 of
                  Inl e \<Rightarrow> Inl e
                | Inr s2 \<Rightarrow> Inr (self\<lparr>skills := Some [s1, s2]\<rparr>))))"

definition Tank_init ::
  "(string \<rightharpoonup> job_attr) \<Rightarrow> (string \<rightharpoonup> string list) \<Rightarrow> (string \<rightharpoonup> skill_attr) \<Rightarrow> string
     \<Rightarrow> py_error + character" where
  "Tank_init job_class_attributes ascii_arts skill_attributes nm =
     job_character_init job_class_attributes ascii_arts Tank ''Tank'' nm
       (WhiskerGuard_init skill_attributes) (ClawSwipe_init skill_attributes)"

definition MirrorMage_init ::
  "(string \<rightharpoonup> job_attr) \<Rightarrow> (string \<rightharpoonup> string list) \<Rightarrow> (string \<rightharpoonup> skill_attr) \<Rightarrow> string
     \<Rightarrow> py_error + character" where
  "MirrorMage_init job_class_attributes ascii_arts skill_attributes nm =
     job_character_init job_class_attributes ascii_arts MirrorMage ''MirrorMage'' nm
       (IllusionaryAura_init skill_attributes) (ReflectiveShield_skill_init skill_attributes)"

definition Healer_init ::
  "(string \<rightharpoonup> job_attr) \<Rightarrow> (string \<rightharpoonup> string list) \<Rightarrow> (string \<rightharpoonup> skill_attr) \<Rightarrow> string
     \<Rightarrow> py_error + character" where
  "Healer_init job_class_attributes ascii_arts skill_attributes nm =
     job_character_init job_class_attributes ascii_arts Healer ''Healer'' nm
       (HealingPurr_init skill_attributes) (LuckyCharm_init skill_attributes)"

definition Assassin_init ::
  "(string \<rightharpoonup> job_attr) \<Rightarrow> (string \<rightharpoonup> string list) \<Rightarrow> (string \<rightharpoonup> skill_attr) \<Rightarrow> string
     \<Rightarrow> py_error + character" where
  "Assassin_init job_class_attributes ascii_arts skill_attributes nm =
     job_character_init job_class_attributes ascii_arts Assassin ''Assassin'' nm
       (PurrfectStrike_init skill_attributes) (CripplingStrike_init skill_attributes)"

definition EnemyCharacter_init ::
  "(string \<rightharpoonup> enemy_attr) \<Rightarrow> (string \<rightharpoonup> string list) \<Rightarrow> string \<Rightarrow> py_error + character" where
  "EnemyCharacter_init enemy_attributes ascii_arts nm =
     (case BaseCharacter_init Map.empty ascii_arts EnemyCharacter nm None of
        Inl e \<Rightarrow> Inl e
      | Inr self0 \<Rightarrow>
          (let self1 = self0\<lparr>magic_points := None, skills := None, active_effects := None\<rparr>
           in case enemy_attributes nm of
                None \<Rightarrow> Inl KeyError
              | Some attr \<Rightarrow>
                  (let self2 = self1\<lparr>max_health_points := Some (enemy_HP attr),
                                     max_defense_points := Some (enemy_DP attr),
                                     attack_points := enemy_AP attr,
                                     speed_points := enemy_SP attr,
                                     luck := enemy_Luck attr\<rparr>
                   in case ascii_arts nm of
                        None \<Rightarrow> Inl KeyError
                      | Some art \<Rightarrow>
                          Inr (self2\<lparr>ascii_art := art, health_points := enemy_HP attr,
                                     defense_points := enemy_DP attr\<rparr>))))"

definition is_alive :: "character \<Rightarrow> bool" where
  "is_alive self = (health_points self > 0)"

text \<open>
  \<open>get_active_effect\<close> returns the first effect object of the class asked for; the model
  returns it with its position in \<open>active_effects\<close>, which stands for the identity of the
  object (each skill use creates a fresh effect object, held by one list only).
\<close>

definition get_active_effect :: "character \<Rightarrow> effect_class \<Rightarrow> (nat \<times> effect) option" where
  "get_active_effect self k =
     (case active_effects self of
        None \<Rightarrow> None
      | Some es \<Rightarrow>
          (case find_first (\<lambda>item. effect_class item = k) es of
             None \<Rightarrow> None
           | Some i \<Rightarrow> Some (i, es ! i)))"

text \<open>Writing to the effect object at position \<open>i\<close>, and \<open>active_effects.remove\<close> of it.\<close>

definition store_effect :: "character \<Rightarrow> nat \<Rightarrow> effect \<Rightarrow> character" where
  "store_effect c i e = c\<lparr>active_effects := map_option (\<lambda>es. es[i := e]) (active_effects c)\<rparr>"

definition remove_effect :: "character \<Rightarrow> nat \<Rightarrow> character" where
  "remove_effect c i = c\<lparr>active_effects := map_option (remove_at i) (active_effects c)\<rparr>"

section \<open>Objects and references\<close>

text \<open>
  A method that takes a second character mutates two objects, and nothing in the
  signature keeps the two from being the same object. Characters therefore live in a
  store indexed by references, and such a method takes the store and the references of
  \<open>self\<close> and of its arguments and returns the store it leaves.
\<close>

type_synonym ref = nat

type_synonym heap = "ref \<Rightarrow> character"

section \<open>Attacks (characters.py, skills.py)\<close>

text \<open>\<open>SkillEffects.ReflectiveShield.take_effect(attacker, damage)\<close>.\<close>

definition take_effect :: "heap \<Rightarrow> ref \<Rightarrow> int \<Rightarrow> string \<times> heap" where
  "take_effect h attacker damage =
     (let defense_points_damage = min damage (defense_points (h attacker));
          health_points_damage = max 0 (damage - defense_points (h attacker));
          h1 = h(attacker := (h attacker)
                 \<lparr>defense_points := defense_points (h attacker) - defense_points_damage\<rparr>);
          h2 = h1(attacker := (h1 attacker)
                 \<lparr>health_points := health_points (h1 attacker) - health_points_damage\<rparr>);
          log = name (h2 attacker) @ '''s attack was met with a defensive shield, ''
                @ ''causing the damage to reflect back to themselves. ''
                @ ''(-'' @ str_int defense_points_damage @ ''DP and -''
                @ str_int health_points_damage @ ''HP)''
      in (log, h2))"

text \<open>
  \<open>basic_attack(target)\<close>; \<open>roll\<close> is the value \<open>random.randint(1, 100)\<close> returns, which is
  drawn only when no effect intercepts the attack.
\<close>

definition basic_attack :: "heap \<Rightarrow> ref \<Rightarrow> ref \<Rightarrow> int \<Rightarrow> string \<times> heap" where
  "basic_attack h self target roll =
     (let h1 = h(self := (h self)\<lparr>speed_points := speed_points (h self) - 1\<rparr>)
      in case get_active_effect (h1 target) Invincible of
           Some (i, effect) \<Rightarrow>
             (let log = name (h1 self) @ '''s attack was REJECTED due to ''
                        @ name (h1 target) @ '''s'' @ '' '' @ effect_belongs_to effect @ ''.'';
                  effect1 = effect\<lparr>use_count := use_count effect - 1\<rparr>;
                  h2 = h1(target := store_effect (h1 target) i effect1);
                  h3 = (if use_count effect1 \<le> 0
                        then h2(target := remove_effect (h2 target) i) else h2)
              in (log, h3))
         | None \<Rightarrow>
             (case get_active_effect (h1 target) ReflectiveShield of
                Some (i, effect) \<Rightarrow>
                  (let (log, h2) = take_effect h1 self (attack_points (h1 self));
                       effect1 = effect\<lparr>use_count := use_count effect - 1\<rparr>;
                       h3 = h2(target := store_effect (h2 target) i effect1);
                       h4 = (if use_count effect1 = 0
                             then h3(target := remove_effect (h3 target) i) else h3)
                   in (log, h4))
              | None \<Rightarrow>
                  (let critical_hit = (roll \<le> luck (h1 self));
                       (total_damage, log) =
                         (if critical_hit
                          then (let d = 2 * attack_points (h1 self)
                                in (d, name (h1 self) @ '' lands a CRITICAL hit and dealt ''
                                       @ str_int d @ ''HP on '' @ name (h1 target) @ ''!''))
                          else (let d = max (attack_points (h1 self)
                                             - defense_points (h1 target)) 0
                                in (d, if d = 0
                                       then name (h1 self) @ '' tried attacking ''
                                            @ name (h1 target)
                                            @ '' but cant get through its defense!''
                                       else name (h1 self) @ '' attacked '' @ name (h1 target)
                                            @ '', dealing '' @ str_int d @ ''HP.'')));
                       h2 = h1(target := (h1 target)
                              \<lparr>health_points := health_points (h1 target) - total_damage\<rparr>);
                       h3 = h2(target := (h2 target)
                              \<lparr>defense_points := defense_points (h2 target) - 1\<rparr>)
                   in (log, h3))))"

section \<open>Using skills (characters.py, skills.py)\<close>

definition check_skill_cost :: "character \<Rightarrow> skill \<Rightarrow> py_error + (bool \<times> string)" where
  "check_skill_cost self sk =
     (if speed_points self < speed_points_cost sk
      then Inr (False, ''Not enough speed points. You need '' @ str_int (speed_points_cost sk)
                       @ '' but only have '' @ str_int (speed_points self) @ ''.'')
      else case magic_points self of
             None \<Rightarrow> Inl AttributeError
           | Some mp \<Rightarrow>
               (if mp < magic_points_cost sk
                then Inr (False, ''Not enough magic points. You need ''
                                 @ str_int (magic_points_cost sk)
                                 @ '' but only have '' @ str_int mp @ ''.'')
                else Inr (True, [])))"

text \<open>
  The \<open>use\<close> methods. \<open>n\<close> is the value the skill's \<open>random.randint\<close> returns and \<open>k\<close> the
  draw of its \<open>random.choice\<close>; \<open>pick_message\<close> is \<open>random.choice\<close> followed by
  \<open>str.format\<close>. A skill that reads its target when none is given raises AttributeError.
\<close>

definition pick_message :: "skill \<Rightarrow> nat \<Rightarrow> string \<Rightarrow> string option \<Rightarrow> py_error + string" where
  "pick_message sk k character_name target_name =
     (case random_choice (message_displays sk) k of
        Inl e \<Rightarrow> Inl e
      | Inr message_display \<Rightarrow> format_msg message_display character_name target_name)"

definition WhiskerGuard_use ::
  "skill \<Rightarrow> heap \<Rightarrow> ref \<Rightarrow> ref option \<Rightarrow> int \<Rightarrow> nat \<Rightarrow> py_error + (string \<times> heap)" where
  "WhiskerGuard_use sk h character target n k =
     (let defense_points_increase = n;
          h1 = h(character := (h character)
                 \<lparr>defense_points := defense_points (h character) + defense_points_increase\<rparr>)
      in case pick_message sk k (name (h1 character)) None of
           Inl e \<Rightarrow> Inl e
         | Inr m \<Rightarrow>
             Inr (m @ ''\<newline>(+'' @ str_int defense_points_increase @ '' Defense Points)'', h1))"

definition ClawSwipe_use ::
  "skill \<Rightarrow> heap \<Rightarrow> ref \<Rightarrow> ref option \<Rightarrow> int \<Rightarrow> nat \<Rightarrow> py_error + (string \<times> heap)" where
  "ClawSwipe_use sk h character target n k =
     (case target of
        None \<Rightarrow> Inl AttributeError
      | Some t \<Rightarrow>
          (let battle_log = ''(removed '' @ name (h t) @ '' defense)'';
               damage_dealt = n;
               (h1, battle_log1) =
                 (if damage_dealt > defense_points (h t)
                  then (let net_damage = damage_dealt - defense_points (h t)
                        in (h(t := (h t)\<lparr>health_points := health_points (h t) - net_damage\<rparr>),
                            ''(removed '' @ name (h t) @ '' defense and dealt ''
                            @ str_int net_damage @ ''HP)''))
                  else (h, battle_log));
               h2 = h1(t := (h1 t)\<lparr>defense_points := 0\<rparr>)
           in case pick_message sk k (name (h2 character)) (Some (name (h2 t))) of
                Inl e \<Rightarrow> Inl e
              | Inr m \<Rightarrow> Inr (m @ ''\<newline>'' @ battle_log1, h2)))"

definition IllusionaryAura_use ::
  "skill \<Rightarrow> heap \<Rightarrow> ref \<Rightarrow> ref option \<Rightarrow> int \<Rightarrow> nat \<Rightarrow> py_error + (string \<times> heap)" where
  "IllusionaryAura_use sk h character target n k =
     (let invincible = Invincible_init
      in case active_effects (h character) of
           None \<Rightarrow> Inl AttributeError
         | Some es \<Rightarrow>
             (let h1 = h(character := (h character)\<lparr>active_effects := Some (es @ [invincible])\<rparr>)
              in case pick_message sk k (name (h1 character)) None of
                   Inl e \<Rightarrow> Inl e
                 | Inr m \<Rightarrow>
                     Inr (m @ ''\<newline>('' @ effect_name invincible @ '' Effect Activated)'', h1)))"

definition ReflectiveShield_use ::
  "skill \<Rightarrow> heap \<Rightarrow> ref \<Rightarrow> ref option \<Rightarrow> int \<Rightarrow> nat \<Rightarrow> py_error + (string \<times> heap)" where
  "ReflectiveShield_use sk h character target n k =
     (let reflective_shield = ReflectiveShield_init
      in case active_effects (h character) of
           None \<Rightarrow> Inl AttributeError
         | Some es \<Rightarrow>
             (let h1 = h(character := (h character)
                        \<lparr>active_effects := Some (es @ [reflective_shield])\<rparr>)
              in case random_choice (message_displays sk) k of
                   Inl e \<Rightarrow> Inl e
                 | Inr message_display \<Rightarrow>
                     (case target of
                        None \<Rightarrow> Inl AttributeError
                      | Some t \<Rightarrow>
                          (case format_msg message_display (name (h1 character))
                                  (Some (name (h1 t))) of
                             Inl e \<Rightarrow> Inl e
                           | Inr m \<Rightarrow>
                               Inr (m @ ''\<newline>(reflective shield effect activated)'', h1)))))"

definition HealingPurr_use ::
  "skill \<Rightarrow> heap \<Rightarrow> ref \<Rightarrow> ref option \<Rightarrow> int \<Rightarrow> nat \<Rightarrow> py_error + (string \<times> heap)" where
  "HealingPurr_use sk h character target n k =
     (let health_points_increase = n;
          h1 = h(character := (h character)
                 \<lparr>health_points := health_points (h character) + health_points_increase\<rparr>)
      in case pick_message sk k (name (h1 character)) None of
           Inl e \<Rightarrow> Inl e
         | Inr m \<Rightarrow>
             Inr (m @ ''\<newline>(+'' @ str_int health_points_increase @ '' health points)'', h1))"

definition LuckyCharm_use ::
  "skill \<Rightarrow> heap \<Rightarrow> ref \<Rightarrow> ref option \<Rightarrow> int \<Rightarrow> nat \<Rightarrow> py_error + (string \<times> heap)" where
  "LuckyCharm_use sk h character target n k =
     (let luck_increase = 5;
          h1 = h(character := (h character)\<lparr>luck := luck (h character) + luck_increase\<rparr>)
      in case pick_message sk k (name (h1 character)) None of
           Inl e \<Rightarrow> Inl e
         | Inr m \<Rightarrow> Inr (m @ ''\<newline>(+'' @ str_int luck_increase @ ''% luck)'', h1))"

definition PurrfectStrike_use ::
  "skill \<Rightarrow> heap \<Rightarrow> ref \<Rightarrow> ref option \<Rightarrow> int \<Rightarrow> nat \<Rightarrow> py_error + (string \<times> heap)" where
  "PurrfectStrike_use sk h character target n k =
     (case target of
        None \<Rightarrow> Inl AttributeError
      | Some t \<Rightarrow>
          (let h1 = h(t := (h t)\<lparr>defense_points := 0\<rparr>);
               damage_dealt = n;
               h2 = h1(t := (h1 t)\<lparr>health_points := health_points (h1 t) - damage_dealt\<rparr>)
           in case pick_message sk k (name (h2 character)) (Some (name (h2 t))) of
                Inl e \<Rightarrow> Inl e
              | Inr m \<Rightarrow>
                  Inr (m @ ''\<newline>(removed '' @ name (h2 t) @ '''s defense and dealt ''
                       @ str_int damage_dealt @ ''HP)'', h2)))"

definition CripplingStrike_use ::
  "skill \<Rightarrow> heap \<Rightarrow> ref \<Rightarrow> ref option \<Rightarrow> int \<Rightarrow> nat \<Rightarrow> py_error + (string \<times> heap)" where
  "CripplingStrike_use sk h character target n k =
     (let speed_reduction = n
      in case target of
           None \<Rightarrow> Inl AttributeError
         | Some t \<Rightarrow>
             (let h1 = h(t := (h t)\<lparr>speed_points := max 0 (speed_points (h t) - speed_reduction)\<rparr>)
              in case pick_message sk k (name (h1 character)) (Some (name (h1 t))) of
                   Inl e \<Rightarrow> Inl e
                 | Inr m \<Rightarrow>
                     Inr (m @ ''\<newline>(Reduced '' @ name (h1 t) @ '' speed points by ''
                          @ str_int speed_reduction @ '')'', h1)))"

text \<open>\<open>skill.use(character, target)\<close>: dispatch on the class of the skill object.\<close>

definition use ::
  "skill \<Rightarrow> heap \<Rightarrow> ref \<Rightarrow> ref option \<Rightarrow> int \<Rightarrow> nat \<Rightarrow> py_error + (string \<times> heap)" where
  "use sk h character target n k =
     (case skill_class sk of
        BaseSkill \<Rightarrow> Inl NotImplementedError
      | WhiskerGuard \<Rightarrow> WhiskerGuard_use sk h character target n k
      | ClawSwipe \<Rightarrow> ClawSwipe_use sk h character target n k
      | IllusionaryAura \<Rightarrow> IllusionaryAura_use sk h character target n k
      | ReflectiveShield_skill \<Rightarrow> ReflectiveShield_use sk h character target n k
      | HealingPurr \<Rightarrow> HealingPurr_use sk h character target n k
      | LuckyCharm \<Rightarrow> LuckyCharm_use sk h character target n k
      | PurrfectStrike \<Rightarrow> PurrfectStrike_use sk h character target n k
      | CripplingStrike \<Rightarrow> CripplingStrike_use sk h character target n k)"

text \<open>
  What \<open>use_skill\<close> returns: \<open>None\<close>, the pair \<open>(is_available, log)\<close>, or the log of the
  skill. The second component of the result is what the call printed.
\<close>

datatype returned = ReturnedNone | ReturnedPair bool string | ReturnedLog string

definition use_skill ::
  "heap \<Rightarrow> ref \<Rightarrow> int \<Rightarrow> ref option \<Rightarrow> int \<Rightarrow> nat
     \<Rightarrow> py_error + (returned \<times> string list \<times> heap)" where
  "use_skill h self skill_index target n k =
     (case skills (h self) of
        None \<Rightarrow> Inl AttributeError
      | Some sks \<Rightarrow>
          (if skill_index \<ge> int (length sks)
           then Inr (ReturnedNone,
                     [''skill_index ('' @ str_int skill_index @ '') out of range''], h)
           else case py_getitem sks skill_index of
                  Inl e \<Rightarrow> Inl e
                | Inr sk \<Rightarrow>
                    (case check_skill_cost (h self) sk of
                       Inl e \<Rightarrow> Inl e
                     | Inr (is_available, log_text) \<Rightarrow>
                         (if \<not> is_available then Inr (ReturnedPair is_available log_text, [], h)
                          else case magic_points (h self) of
                                 None \<Rightarrow> Inl AttributeError
                               | Some mp \<Rightarrow>
                                   (let h1 = h(self := (h self)
                                              \<lparr>speed_points := speed_points (h self)
                                                               - speed_points_cost sk\<rparr>);
                                        h2 = h1(self := (h1 self)
                                              \<lparr>magic_points := Some (mp - magic_points_cost sk)\<rparr>)
                                    in case target of
                                         Some t \<Rightarrow>
                                           (case use sk h2 self (Some t) n k of
                                              Inl e \<Rightarrow> Inl e
                                            | Inr (log_text, h3) \<Rightarrow> Inr (ReturnedLog log_text, [], h3))
                                       | None \<Rightarrow>
                                           (if require_target sk
                                            then Inr (ReturnedNone,
                                                      [''Skill requires a target argument.''], h2)
                                            else case use sk h2 self None n k of
                                                   Inl e \<Rightarrow> Inl e
                                                 | Inr (log_text, h3) \<Rightarrow>
                                                     Inr (ReturnedLog log_text, [], h3)))))))"

section \<open>The game manager (game_manager.py)\<close>

record game_manager =
  player_characters :: "ref list"
  enemies :: "ref list"
  active_player_character :: ref
  active_enemy_character :: ref
  turn_character :: ref
  battle_log :: "string list"

text \<open>
  \<open>update_idle_character_stats\<close> is a static method on one character. Reading
  \<open>magic_points\<close> on an object that is not an \<open>EnemyCharacter\<close> and has no such attribute
  would raise AttributeError.
\<close>

definition update_idle_character_stats :: "character \<Rightarrow> py_error + character" where
  "update_idle_character_stats idle_character =
     (let c1 = idle_character\<lparr>speed_points := speed_points idle_character + 1\<rparr>;
          c2 = c1\<lparr>defense_points := max (defense_points c1) 0\<rparr>
      in if cls c2 \<noteq> EnemyCharacter
         then (case magic_points c2 of
                 None \<Rightarrow> Inl AttributeError
               | Some mp \<Rightarrow> Inr (c2\<lparr>magic_points := Some (mp + 1)\<rparr>))
         else Inr c2)"

text \<open>
  \<open>determine_turn_order\<close>: the key of a character is the pair of its speed points and a
  fresh \<open>random.random()\<close>, compared as tuples; \<open>r_enemy\<close> and \<open>r_player\<close> are the two numbers
  drawn, in the order of the list. Only their order matters, so they are real numbers.
\<close>

definition determine_turn_order :: "heap \<Rightarrow> game_manager \<Rightarrow> real \<Rightarrow> real \<Rightarrow> py_error + ref" where
  "determine_turn_order h self r_enemy r_player =
     (let active_characters = [active_enemy_character self, active_player_character self];
          keys = [(speed_points (h (active_enemy_character self)), r_enemy),
                  (speed_points (h (active_player_character self)), r_player)];
          sorted_entities = sorted_reverse (zip keys active_characters)
      in py_getitem sorted_entities 0)"

definition is_game_over :: "heap \<Rightarrow> game_manager \<Rightarrow> bool" where
  "is_game_over h self =
     (\<not> list_ex (\<lambda>character. is_alive (h character)) (player_characters self)
      \<or> \<not> list_ex (\<lambda>character. is_alive (h character)) (enemies self))"

text \<open>\<open>player_won\<close> returns its verdict and prints a line when the game is not over.\<close>

definition player_won :: "heap \<Rightarrow> game_manager \<Rightarrow> bool \<times> string list" where
  "player_won h self =
     (if \<not> is_game_over h self then (False, [''Game not over yet.''])
      else (list_ex (\<lambda>character. is_alive (h character)) (player_characters self)
            \<and> \<not> list_ex (\<lambda>character. is_alive (h character)) (enemies self), []))"

section \<open>Sample objects\<close>

text \<open>
  Sample rows for the tables, which stand for the data files: a MirrorMage job class, its
  two skills and one enemy.
\<close>

definition sample_job_class_attributes :: "string \<rightharpoonup> job_attr" where
  "sample_job_class_attributes =
     [''MirrorMage'' \<mapsto> \<lparr>job_HP = 30, job_DP = 5, job_AP = 10, job_SP = 4, job_MP = 6,
                         job_Luck = 0\<rparr>]"

definition sample_enemy_attributes :: "string \<rightharpoonup> enemy_attr" where
  "sample_enemy_attributes =
     [''Rat'' \<mapsto> \<lparr>enemy_HP = 20, enemy_DP = 3, enemy_AP = 8, enemy_SP = 6, enemy_Luck = 10\<rparr>]"

definition sample_ascii_arts :: "string \<rightharpoonup> string list" where
  "sample_ascii_arts = [''MirrorMage'' \<mapsto> [], ''Rat'' \<mapsto> []]"

definition sample_skill_attributes :: "string \<rightharpoonup> skill_attr" where
  "sample_skill_attributes =
     [''IllusionaryAura'' \<mapsto>
        \<lparr>attr_name = ''Illusionary Aura'', attr_mp_cost = 3, attr_sp_cost = 2,
         attr_require_target = ''no'', attr_belongs_to = ''MirrorMage''\<rparr>,
      ''ReflectiveShield'' \<mapsto>
        \<lparr>attr_name = ''Reflective Shield'', attr_mp_cost = 4, attr_sp_cost = 2,
         attr_require_target = ''yes'', attr_belongs_to = ''MirrorMage''\<rparr>]"

definition sample_aura :: skill where
  "sample_aura = projr (IllusionaryAura_init sample_skill_attributes)"

definition sample_shield :: skill where
  "sample_shield = projr (ReflectiveShield_skill_init sample_skill_attributes)"

text \<open>
  The MirrorMage and the enemy that the constructors build from these rows, and a store
  that holds the mage at reference 0 and the enemy at reference 1.
\<close>

definition sample_player :: character where
  "sample_player =
     \<lparr>cls = MirrorMage, name = ''Tom'', health_points = 30, attack_points = 10,
      defense_points = 5, speed_points = 4, magic_points = Some 6,
      job_class = ''MirrorMage'', luck = 0, skills = Some [sample_aura, sample_shield],
      active_effects = Some [], character_image = [], ascii_art = [],
      starting_column_position = 0, max_health_points = Some 30,
      max_defense_points = Some 5\<rparr>"

definition sample_enemy :: character where
  "sample_enemy =
     \<lparr>cls = EnemyCharacter, name = ''Rat'', health_points = 20, attack_points = 8,
      defense_points = 3, speed_points = 6, magic_points = None,
      job_class = [], luck = 10, skills = None, active_effects = None,
      character_image = [], ascii_art = [], starting_column_position = 0,
      max_health_points = Some 20, max_defense_points = Some 3\<rparr>"

definition sample_heap :: heap where
  "sample_heap = (\<lambda>_. sample_player)(1 := sample_enemy)"

text \<open>The same store with the mage holding the given active effects.\<close>

definition with_effects :: "effect list \<Rightarrow> heap" where
  "with_effects es = sample_heap(0 := sample_player\<lparr>active_effects := Some es\<rparr>)"

text \<open>A session with the mage and the enemy as the two rosters, and a defeated character.\<close>

definition sample_game :: game_manager where
  "sample_game =
     \<lparr>player_characters = [0], enemies = [1], active_player_character = 0,
      active_enemy_character = 1, turn_character = 1, battle_log = []\<rparr>"

definition defeated :: "character \<Rightarrow> character" where
  "defeated c = c\<lparr>health_points := 0\<rparr>"

text \<open>
  The mage after two uses of Illusionary Aura: no speed or magic points left, and two
  Invincible effects.
\<close>

definition spent_player :: character where
  "spent_player =
     sample_player\<lparr>speed_points := 0, magic_points := Some 0,
                   active_effects := Some [Invincible_init, Invincible_init]\<rparr>"

definition spent_heap :: heap where
  "spent_heap = sample_heap(0 := spent_player)"

section \<open>Facts about the helpers\<close>

lemma get_active_effect_speed [simp]:
  "get_active_effect (c\<lparr>speed_points := s\<rparr>) k = get_active_effect c k"
  by (simp add: get_active_effect_def)

lemma get_active_effect_after_cost:
  "get_active_effect ((h(self := (h self)\<lparr>speed_points := s\<rparr>)) target) k
     = get_active_effect (h target) k"
  by (cases "self = target") simp_all

lemma basic_attack_plain:
  assumes "get_active_effect (h target) Invincible = None"
    and "get_active_effect (h target) ReflectiveShield = None"
  shows "health_points (snd (basic_attack h self target roll) target)
           = health_points (h target)
             - (if roll \<le> luck (h self) then 2 * attack_points (h self)
                else max (attack_points (h self) - defense_points (h target)) 0)"
    and "defense_points (snd (basic_attack h self target roll) target)
           = defense_points (h target) - 1"
    and "speed_points (snd (basic_attack h self target roll) self)
           = speed_points (h self) - 1"
  using assms
  by (auto simp add: basic_attack_def get_active_effect_after_cost Let_def
           split: prod.splits)

lemma no_effects_no_match:
  "active_effects c = None \<or> active_effects c = Some [] \<Longrightarrow> get_active_effect c k = None"
  by (auto simp add: get_active_effect_def)

lemma find_first_Some:
  "find_first P xs = Some i \<Longrightarrow> i < length xs \<and> P (xs ! i)"
proof (induction xs arbitrary: i)
  case Nil
  then show ?case by simp
next
  case (Cons x xs)
  then show ?case by (auto split: if_splits)
qed

lemma filter_update_other:
  "i < length xs \<Longrightarrow> \<not> P (xs ! i) \<Longrightarrow> \<not> P y \<Longrightarrow> filter P (xs[i := y]) = filter P xs"
proof (induction xs arbitrary: i)
  case Nil
  then show ?case by simp
next
  case (Cons x xs)
  then show ?case by (cases i) auto
qed

lemma filter_remove_other:
  "i < length xs \<Longrightarrow> \<not> P (xs ! i) \<Longrightarrow> filter P (remove_at i xs) = filter P xs"
proof (induction xs arbitrary: i)
  case Nil
  then show ?case by simp
next
  case (Cons x xs)
  then show ?case by (cases i) (auto simp add: remove_at_def)
qed

lemma remove_at_update: "remove_at i (xs[i := y]) = remove_at i xs"
  by (simp add: remove_at_def)

lemma find_first_update_other:
  "find_first P xs = Some j \<Longrightarrow> i < length xs \<Longrightarrow> \<not> P (xs ! i) \<Longrightarrow> \<not> P y
     \<Longrightarrow> find_first P (xs[i := y]) = Some j \<and> xs[i := y] ! j = xs ! j"
proof (induction xs arbitrary: i j)
  case Nil
  then show ?case by simp
next
  case (Cons x xs)
  then show ?case by (cases i) (auto split: if_splits)
qed

lemma find_first_remove_other:
  "find_first P xs = Some j \<Longrightarrow> i < length xs \<Longrightarrow> \<not> P (xs ! i)
     \<Longrightarrow> \<exists>j'. find_first P (remove_at i xs) = Some j' \<and> remove_at i xs ! j' = xs ! j"
proof (induction xs arbitrary: i j)
  case Nil
  then show ?case by simp
next
  case (Cons x xs)
  show ?case
  proof (cases i)
    case 0
    with Cons.prems show ?thesis by (auto simp add: remove_at_def split: if_splits)
  next
    case (Suc i')
    show ?thesis
    proof (cases "P x")
      case True
      with Cons.prems Suc show ?thesis by (simp add: remove_at_def)
    next
      case False
      with Cons.prems obtain j0 where j0: "find_first P xs = Some j0" "j = Suc j0"
        by auto
      from Cons.IH [OF j0(1), of i'] Cons.prems Suc
      obtain j' where "find_first P (remove_at i' xs) = Some j'" "remove_at i' xs ! j' = xs ! j0"
        by auto
      with False Suc j0 show ?thesis by (simp add: remove_at_def)
    qed
  qed
qed

lemma get_active_effect_Some:
  assumes "get_active_effect c k = Some (i, e)"
  obtains es where "active_effects c = Some es" and "i < length es" and "es ! i = e"
    and "effect_class e = k" and "find_first (\<lambda>item. effect_class item = k) es = Some i"
  using assms find_first_Some [of "\<lambda>item. effect_class item = k"]
  by (auto simp add: get_active_effect_def split: option.splits)

text \<open>What an attack does when the first Invincible effect of the target intercepts it.\<close>

lemma basic_attack_invincible:
  assumes "active_effects (h target) = Some es"
    and "get_active_effect (h target) Invincible = Some (i, e)"
  shows "basic_attack h self target roll =
           (name (h self) @ '''s attack was REJECTED due to '' @ name (h target) @ '''s ''
              @ effect_belongs_to e @ ''.'',
            (h(self := (h self)\<lparr>speed_points := speed_points (h self) - 1\<rparr>))
              (target := ((h(self := (h self)\<lparr>speed_points := speed_points (h self) - 1\<rparr>)) target)
                 \<lparr>active_effects := Some (if use_count e \<le> 1 then remove_at i es
                                           else es[i := e\<lparr>use_count := use_count e - 1\<rparr>])\<rparr>))"
  using assms
  by (cases "self = target")
     (auto simp add: basic_attack_def get_active_effect_after_cost Let_def store_effect_def
        remove_effect_def remove_at_update)

lemma take_effect_fields:
  "defense_points (snd (take_effect h attacker damage) attacker)
     = defense_points (h attacker) - min damage (defense_points (h attacker))"
  "health_points (snd (take_effect h attacker damage) attacker)
     = health_points (h attacker) - max 0 (damage - defense_points (h attacker))"
  "r \<noteq> attacker \<Longrightarrow> snd (take_effect h attacker damage) r = h r"
  "active_effects (snd (take_effect h attacker damage) r) = active_effects (h r)"
  by (simp_all add: take_effect_def Let_def)

text \<open>What an attack does when the first ReflectiveShield effect of the target intercepts it.\<close>

lemma basic_attack_shield:
  assumes "active_effects (h target) = Some es"
    and "get_active_effect (h target) Invincible = None"
    and "get_active_effect (h target) ReflectiveShield = Some (j, r)"
  shows "snd (basic_attack h self target roll) =
           (let h2 = snd (take_effect (h(self := (h self)\<lparr>speed_points := speed_points (h self) - 1\<rparr>))
                            self (attack_points (h self)))
            in h2(target := (h2 target)
                 \<lparr>active_effects := Some (if use_count r = 1 then remove_at j es
                                           else es[j := r\<lparr>use_count := use_count r - 1\<rparr>])\<rparr>))"
  using assms
  by (cases "self = target")
     (auto simp add: basic_attack_def get_active_effect_after_cost Let_def store_effect_def
        remove_effect_def remove_at_update take_effect_fields case_prod_unfold)

lemma sample_stats:
  "health_points (with_effects es 0) = 30" "defense_points (with_effects es 0) = 5"
  "name (with_effects es 0) = ''Tom''" "active_effects (with_effects es 0) = Some es"
  "name (with_effects es (Suc 0)) = ''Rat''" "health_points (with_effects es (Suc 0)) = 20"
  "defense_points (with_effects es (Suc 0)) = 3" "attack_points (with_effects es (Suc 0)) = 8"
  "luck (with_effects es (Suc 0)) = 10" "speed_points (with_effects es (Suc 0)) = 6"
  by (simp_all add: with_effects_def sample_heap_def sample_player_def sample_enemy_def)

text \<open>The sample objects are the ones the constructors build from the sample rows.\<close>

lemma sample_aura_built: "IllusionaryAura_init sample_skill_attributes = Inr sample_aura"
  by (simp add: sample_aura_def IllusionaryAura_init_def assign_skill_attributes_def
      sample_skill_attributes_def class_name_def)

lemma sample_shield_built: "ReflectiveShield_skill_init sample_skill_attributes = Inr sample_shield"
  by (simp add: sample_shield_def ReflectiveShield_skill_init_def assign_skill_attributes_def
      sample_skill_attributes_def class_name_def)

lemma sample_player_built:
  "MirrorMage_init sample_job_class_attributes sample_ascii_arts sample_skill_attributes ''Tom''
     = Inr sample_player"
  by (simp add: MirrorMage_init_def job_character_init_def BaseCharacter_init_def
      assign_job_class_attributes_def sample_job_class_attributes_def sample_ascii_arts_def
      sample_aura_built sample_shield_built sample_player_def Let_def)

lemma sample_enemy_built:
  "EnemyCharacter_init sample_enemy_attributes sample_ascii_arts ''Rat'' = Inr sample_enemy"
  by (simp add: EnemyCharacter_init_def BaseCharacter_init_def sample_enemy_attributes_def
      sample_ascii_arts_def sample_enemy_def Let_def)

lemma sample_aura_fields:
  "skill_class sample_aura = IllusionaryAura" "speed_points_cost sample_aura = 2"
  "magic_points_cost sample_aura = 3" "require_target sample_aura = False"
  "message_displays sample_aura \<noteq> []"
  "message_displays sample_aura ! 0 =
    [CharacterField,
     Text '' casts Illusionary Aura, creating a captivating aura around themselves.'']"
  by (simp_all add: sample_aura_def IllusionaryAura_init_def assign_skill_attributes_def
      sample_skill_attributes_def class_name_def str_lower_def lower_char_def)

lemma sample_shield_fields:
  "skill_class sample_shield = ReflectiveShield_skill" "speed_points_cost sample_shield = 2"
  "magic_points_cost sample_shield = 4" "require_target sample_shield = True"
  "length (message_displays sample_shield) = 3" "message_displays sample_shield \<noteq> []"
  "message_displays sample_shield ! 0 =
    [Text ''A shimmering shield envelops '', CharacterField,
     Text '', ready to reflect incoming physical damage from '', TargetField, Text ''.'']"
  by (simp_all add: sample_shield_def ReflectiveShield_skill_init_def assign_skill_attributes_def
      sample_skill_attributes_def class_name_def str_lower_def lower_char_def)

lemma sample_heap_player:
  "sample_heap 0 = sample_player" "sample_heap (Suc 0) = sample_enemy"
  by (simp_all add: sample_heap_def)

lemma sample_player_fields:
  "skills sample_player = Some [sample_aura, sample_shield]"
  "speed_points sample_player = 4" "magic_points sample_player = Some 6"
  "name sample_player = ''Tom''" "active_effects sample_player = Some []"
  by (simp_all add: sample_player_def)

lemma low_fields:
  "skills ((sample_heap(0 := sample_player\<lparr>speed_points := 1\<rparr>)) 0)
     = Some [sample_aura, sample_shield]"
  "magic_points ((sample_heap(0 := sample_player\<lparr>speed_points := 1\<rparr>)) 0) = Some 6"
  "speed_points ((sample_heap(0 := sample_player\<lparr>speed_points := 1\<rparr>)) 0) = 1"
  by (simp_all add: sample_player_def)

lemma spent_job: "job_class spent_player = ''MirrorMage''"
  by (simp add: spent_player_def sample_player_def)

lemma py_getitem_sample:
  "py_getitem [sample_aura, sample_shield] 0 = Inr sample_aura"
  "py_getitem [sample_aura, sample_shield] 1 = Inr sample_shield"
  "py_getitem [sample_aura, sample_shield] (- 1) = Inr sample_shield"
  "py_getitem [sample_aura, sample_shield] (- 3) = Inl IndexError"
  by (simp_all add: py_getitem_def)

lemma py_getitem_below: "py_getitem xs i = Inr x \<Longrightarrow> i < int (length xs)"
  by (auto simp add: py_getitem_def split: if_splits)

lemma str_int_small: "str_int 1 = ''1''" "str_int 2 = ''2''"
  by (simp_all add: str_int_def str_nat.simps digit_char_def)

text \<open>
  One use of Illusionary Aura by the character at reference 0, and the state the mage
  reaches by using it twice in a row: the store \<open>spent_heap\<close>.
\<close>

lemma aura_once:
  assumes "skills (h 0) = Some [sample_aura, sample_shield]"
    and "speed_points (h 0) \<ge> 2" and "magic_points (h 0) = Some mp" and "mp \<ge> 3"
    and "active_effects (h 0) = Some es"
  shows "\<exists>l. use_skill h 0 0 (Some 1) n 0
           = Inr (ReturnedLog l, [],
                  h(0 := (h 0)\<lparr>speed_points := speed_points (h 0) - 2,
                                magic_points := Some (mp - 3),
                                active_effects := Some (es @ [Invincible_init])\<rparr>))"
  using assms
  by (simp add: use_skill_def py_getitem_sample check_skill_cost_def sample_aura_fields
      use_def IllusionaryAura_use_def pick_message_def random_choice_def Let_def)

lemma spent_player_reached:
  "\<exists>l1 h1 l2 h2. use_skill sample_heap 0 0 (Some 1) n1 0 = Inr (ReturnedLog l1, [], h1)
     \<and> use_skill h1 0 0 (Some 1) n2 0 = Inr (ReturnedLog l2, [], h2)
     \<and> h2 = spent_heap"
proof -
  obtain l1 where first: "use_skill sample_heap 0 0 (Some 1) n1 0
      = Inr (ReturnedLog l1, [],
             sample_heap(0 := sample_player\<lparr>speed_points := 2, magic_points := Some 3,
                                            active_effects := Some [Invincible_init]\<rparr>))"
    using aura_once [of sample_heap 6 "[]" n1]
    by (auto simp add: sample_heap_player sample_player_fields)
  let ?h1 = "sample_heap(0 := sample_player\<lparr>speed_points := 2, magic_points := Some 3,
                                            active_effects := Some [Invincible_init]\<rparr>)"
  obtain l2 where second: "use_skill ?h1 0 0 (Some 1) n2 0
      = Inr (ReturnedLog l2, [],
             ?h1(0 := (?h1 0)\<lparr>speed_points := 0, magic_points := Some 0,
                        active_effects := Some [Invincible_init, Invincible_init]\<rparr>))"
    using aura_once [of ?h1 3 "[Invincible_init]" n2]
    by (auto simp add: sample_player_fields)
  show ?thesis
    using first second by (simp add: spent_heap_def spent_player_def)
qed

text \<open>The index guard of \<open>use_skill\<close> for an index at or beyond the end of the list.\<close>

lemma use_skill_index_too_large:
  assumes "skills (h self) = Some sks" and "int (length sks) \<le> i"
  shows "use_skill h self i target n k
           = Inr (ReturnedNone, [''skill_index ('' @ str_int i @ '') out of range''], h)"
  using assms by (simp add: use_skill_def)

section \<open>Basic attack without effects\<close>

text \<open>
  C3. When the target has no active effects (the attribute is absent or the list is
  empty), a basic attack whose critical roll fails (\<open>roll > luck\<close>) takes
  \<open>max(attack_points - target.defense_points, 0)\<close> from the target's health points, one
  whose roll succeeds takes \<open>2 * attack_points\<close> whatever the defense; either way the
  target's defense points drop by 1 with no clamp, also when the damage is 0, and the
  attacker's speed points drop by exactly 1. This holds for every roll and also when
  attacker and target are the same object.
\<close>

theorem basic_attack_no_effects:
  assumes "active_effects (h target) = None \<or> active_effects (h target) = Some []"
  shows "health_points (snd (basic_attack h self target roll) target)
           = health_points (h target)
             - (if roll \<le> luck (h self) then 2 * attack_points (h self)
                else max (attack_points (h self) - defense_points (h target)) 0)
         \<and> defense_points (snd (basic_attack h self target roll) target)
           = defense_points (h target) - 1
         \<and> speed_points (snd (basic_attack h self target roll) self)
           = speed_points (h self) - 1"
proof -
  have inv: "get_active_effect (h target) Invincible = None"
    and shield: "get_active_effect (h target) ReflectiveShield = None"
    using assms by (rule no_effects_no_match)+
  show ?thesis
    using inv shield by (simp add: basic_attack_plain)
qed

text \<open>
  The mage (attack 10, luck 0) attacks the enemy (health 20, defense 3) with a roll of 50:
  the enemy is left with 13 health points and 2 defense points.
\<close>

theorem basic_attack_no_effects_witness:
  "(active_effects (sample_heap 1) = None \<or> active_effects (sample_heap 1) = Some [])
   \<and> health_points (snd (basic_attack sample_heap 0 1 50) 1) = 13
   \<and> defense_points (snd (basic_attack sample_heap 0 1 50) 1) = 2
   \<and> speed_points (snd (basic_attack sample_heap 0 1 50) 0) = 3"
  using basic_attack_no_effects [of sample_heap 1 0 50]
  by (simp add: sample_heap_def sample_player_def sample_enemy_def)

section \<open>Effects that intercept an attack\<close>

text \<open>
  C4. \<open>ReflectiveShield.take_effect(attacker, damage)\<close> takes
  \<open>dp_loss = min(damage, attacker.defense_points)\<close> from the attacker's defense points and
  \<open>hp_loss = max(0, damage - attacker.defense_points)\<close> from its health points, and the two
  losses add up to \<open>damage\<close>; this holds for every damage value, so in particular for the
  non-negative ones. A basic attack on a target that holds a ReflectiveShield effect leaves
  the target's health and defense points as they were, and when no Invincible effect stands
  before the shield the attacker takes the two losses for \<open>damage = attack_points\<close>.
  Attacker and target are two objects here, as in every call of the game.
\<close>

theorem reflection_conservation:
  "defense_points (snd (take_effect h attacker damage) attacker)
     = defense_points (h attacker) - min damage (defense_points (h attacker))
   \<and> health_points (snd (take_effect h attacker damage) attacker)
     = health_points (h attacker) - max 0 (damage - defense_points (h attacker))
   \<and> min damage (defense_points (h attacker)) + max 0 (damage - defense_points (h attacker))
     = damage
   \<and> (get_active_effect (h target) ReflectiveShield = Some (j, r) \<and> self \<noteq> target \<longrightarrow>
        health_points (snd (basic_attack h self target roll) target) = health_points (h target)
        \<and> defense_points (snd (basic_attack h self target roll) target)
          = defense_points (h target))
   \<and> (get_active_effect (h target) ReflectiveShield = Some (j, r)
        \<and> get_active_effect (h target) Invincible = None \<and> self \<noteq> target \<longrightarrow>
        defense_points (snd (basic_attack h self target roll) self)
          = defense_points (h self) - min (attack_points (h self)) (defense_points (h self))
        \<and> health_points (snd (basic_attack h self target roll) self)
          = health_points (h self)
            - max 0 (attack_points (h self) - defense_points (h self)))"
proof -
  have target_kept: "health_points (snd (basic_attack h self target roll) target)
        = health_points (h target)
      \<and> defense_points (snd (basic_attack h self target roll) target) = defense_points (h target)"
    if shield: "get_active_effect (h target) ReflectiveShield = Some (j, r)" and ne: "self \<noteq> target"
  proof -
    obtain es where es: "active_effects (h target) = Some es"
      using shield by (rule get_active_effect_Some)
    show ?thesis
    proof (cases "get_active_effect (h target) Invincible")
      case None
      show ?thesis
        using ne es None shield by (simp add: basic_attack_shield Let_def take_effect_fields)
    next
      case (Some p)
      obtain i e where p: "p = (i, e)" by (cases p)
      show ?thesis
        using ne Some es by (simp add: basic_attack_invincible p)
    qed
  qed
  have attacker_hit: "defense_points (snd (basic_attack h self target roll) self)
          = defense_points (h self) - min (attack_points (h self)) (defense_points (h self))
        \<and> health_points (snd (basic_attack h self target roll) self)
          = health_points (h self)
            - max 0 (attack_points (h self) - defense_points (h self))"
    if shield: "get_active_effect (h target) ReflectiveShield = Some (j, r)"
      and none: "get_active_effect (h target) Invincible = None" and ne: "self \<noteq> target"
  proof -
    obtain es where es: "active_effects (h target) = Some es"
      using shield by (rule get_active_effect_Some)
    show ?thesis
      using ne es none shield by (simp add: basic_attack_shield Let_def take_effect_fields)
  qed
  show ?thesis
    using target_kept attacker_hit by (simp add: take_effect_fields)
qed

text \<open>
  The enemy (attack 8, defense 3, health 20) attacks the shielded mage: the mage keeps its
  30 health and 5 defense points, and the enemy loses 3 defense and 5 health points.
\<close>

theorem reflection_conservation_witness:
  "get_active_effect (with_effects [ReflectiveShield_init] 0) ReflectiveShield
     = Some (0, ReflectiveShield_init)
   \<and> get_active_effect (with_effects [ReflectiveShield_init] 0) Invincible = None
   \<and> (1::nat) \<noteq> 0
   \<and> health_points (snd (basic_attack (with_effects [ReflectiveShield_init]) 1 0 50) 0) = 30
   \<and> defense_points (snd (basic_attack (with_effects [ReflectiveShield_init]) 1 0 50) 0) = 5
   \<and> defense_points (snd (basic_attack (with_effects [ReflectiveShield_init]) 1 0 50) 1) = 0
   \<and> health_points (snd (basic_attack (with_effects [ReflectiveShield_init]) 1 0 50) 1) = 15"
proof -
  have shield: "get_active_effect (with_effects [ReflectiveShield_init] 0) ReflectiveShield
      = Some (0, ReflectiveShield_init)"
    by (simp add: get_active_effect_def sample_stats ReflectiveShield_init_def)
  have none: "get_active_effect (with_effects [ReflectiveShield_init] 0) Invincible = None"
    by (simp add: get_active_effect_def sample_stats ReflectiveShield_init_def)
  show ?thesis
    using reflection_conservation [where h = "with_effects [ReflectiveShield_init]"
        and target = 0 and self = 1 and j = 0 and r = ReflectiveShield_init and roll = 50
        and attacker = 1 and damage = 8]
      shield none
    by (simp add: sample_stats)
qed

text \<open>
  C10. When the target holds both an Invincible and a ReflectiveShield effect, a basic
  attack is rejected by the first Invincible effect and consumes only that one: its use
  count drops by 1 and it is removed once no use is left. Every ReflectiveShield effect of
  the target stays in \<open>active_effects\<close> with its use count as it was, the first of them is
  still the one \<open>get_active_effect\<close> finds, and the health and defense points of the
  attacker and of the target are untouched, so nothing is reflected.
\<close>

theorem invincible_before_shield:
  assumes inv: "get_active_effect (h target) Invincible = Some (i, e)"
    and shield: "get_active_effect (h target) ReflectiveShield = Some (j, r)"
    and es: "active_effects (h target) = Some es"
  shows "fst (basic_attack h self target roll)
           = name (h self) @ '''s attack was REJECTED due to '' @ name (h target) @ '''s ''
             @ effect_belongs_to e @ ''.''
         \<and> active_effects (snd (basic_attack h self target roll) target)
           = Some (if use_count e \<le> 1 then remove_at i es
                   else es[i := e\<lparr>use_count := use_count e - 1\<rparr>])
         \<and> map_option (filter (\<lambda>x. effect_class x = ReflectiveShield))
             (active_effects (snd (basic_attack h self target roll) target))
           = Some (filter (\<lambda>x. effect_class x = ReflectiveShield) es)
         \<and> map_option snd
             (get_active_effect (snd (basic_attack h self target roll) target) ReflectiveShield)
           = Some r
         \<and> health_points (snd (basic_attack h self target roll) self) = health_points (h self)
         \<and> defense_points (snd (basic_attack h self target roll) self)
           = defense_points (h self)
         \<and> health_points (snd (basic_attack h self target roll) target)
           = health_points (h target)
         \<and> defense_points (snd (basic_attack h self target roll) target)
           = defense_points (h target)"
proof -
  let ?P = "\<lambda>x. effect_class x = ReflectiveShield"
  let ?h' = "snd (basic_attack h self target roll)"
  let ?es' = "if use_count e \<le> 1 then remove_at i es
              else es[i := e\<lparr>use_count := use_count e - 1\<rparr>]"
  from inv es have i: "i < length es" "es ! i = e" "effect_class e = Invincible"
    by (auto elim: get_active_effect_Some)
  from shield es have j: "find_first ?P es = Some j" "es ! j = r"
    by (auto elim: get_active_effect_Some)
  have notP: "\<not> ?P (es ! i)" "\<not> ?P (e\<lparr>use_count := use_count e - 1\<rparr>)"
    using i by simp_all
  have effects: "active_effects (?h' target) = Some ?es'"
    using inv es by (simp add: basic_attack_invincible)
  have kept: "filter ?P ?es' = filter ?P es"
    using i notP by (simp add: filter_update_other filter_remove_other)
  have first: "\<exists>j'. find_first ?P ?es' = Some j' \<and> ?es' ! j' = r"
    using find_first_update_other [OF j(1) i(1) notP]
      find_first_remove_other [OF j(1) i(1) notP(1)] j(2)
    by auto
  have shield': "map_option snd (get_active_effect (?h' target) ReflectiveShield) = Some r"
    using first effects by (auto simp add: get_active_effect_def)
  have attacker: "health_points (?h' self) = health_points (h self)"
    "defense_points (?h' self) = defense_points (h self)"
    using inv es by (simp_all add: basic_attack_invincible)
  have defender: "health_points (?h' target) = health_points (h target)"
    "defense_points (?h' target) = defense_points (h target)"
    using inv es by (simp_all add: basic_attack_invincible)
  have log_eq: "fst (basic_attack h self target roll)
      = name (h self) @ '''s attack was REJECTED due to '' @ name (h target) @ '''s ''
             @ effect_belongs_to e @ ''.''"
    using inv es by (simp add: basic_attack_invincible)
  show ?thesis
    using log_eq effects kept shield' attacker defender by simp
qed

text \<open>
  The mage holds a ReflectiveShield and, after it, an Invincible effect: the enemy's attack
  is rejected, the shield alone remains, and the enemy keeps its 20 health and 3 defense
  points.
\<close>

theorem invincible_before_shield_witness:
  "get_active_effect (with_effects [ReflectiveShield_init, Invincible_init] 0) Invincible
     = Some (1, Invincible_init)
   \<and> get_active_effect (with_effects [ReflectiveShield_init, Invincible_init] 0)
       ReflectiveShield = Some (0, ReflectiveShield_init)
   \<and> active_effects (with_effects [ReflectiveShield_init, Invincible_init] 0)
     = Some [ReflectiveShield_init, Invincible_init]
   \<and> fst (basic_attack (with_effects [ReflectiveShield_init, Invincible_init]) 1 0 50)
     = ''Rat's attack was REJECTED due to Tom's Illusionary Aura.''
   \<and> active_effects
       (snd (basic_attack (with_effects [ReflectiveShield_init, Invincible_init]) 1 0 50) 0)
     = Some [ReflectiveShield_init]
   \<and> use_count ReflectiveShield_init = 1
   \<and> health_points
       (snd (basic_attack (with_effects [ReflectiveShield_init, Invincible_init]) 1 0 50) 1)
     = 20
   \<and> defense_points
       (snd (basic_attack (with_effects [ReflectiveShield_init, Invincible_init]) 1 0 50) 1)
     = 3
   \<and> health_points
       (snd (basic_attack (with_effects [ReflectiveShield_init, Invincible_init]) 1 0 50) 0)
     = 30
   \<and> defense_points
       (snd (basic_attack (with_effects [ReflectiveShield_init, Invincible_init]) 1 0 50) 0)
     = 5"
proof -
  have inv: "get_active_effect (with_effects [ReflectiveShield_init, Invincible_init] 0)
      Invincible = Some (1, Invincible_init)"
    by (simp add: get_active_effect_def sample_stats ReflectiveShield_init_def
        Invincible_init_def)
  have shield: "get_active_effect (with_effects [ReflectiveShield_init, Invincible_init] 0)
      ReflectiveShield = Some (0, ReflectiveShield_init)"
    by (simp add: get_active_effect_def sample_stats ReflectiveShield_init_def)
  have es: "active_effects (with_effects [ReflectiveShield_init, Invincible_init] 0)
      = Some [ReflectiveShield_init, Invincible_init]"
    by (simp add: sample_stats)
  have once: "use_count Invincible_init = 1" "use_count ReflectiveShield_init = 1"
    "effect_belongs_to Invincible_init = ''Illusionary Aura''"
    by (simp_all add: Invincible_init_def ReflectiveShield_init_def)
  show ?thesis
    using invincible_before_shield [where h = "with_effects [ReflectiveShield_init, Invincible_init]"
        and target = 0 and self = 1 and roll = 50, OF inv shield es]
      inv shield es once
    by (simp add: sample_stats remove_at_def)
qed

text \<open>
  C5, as the code has it. When the first Invincible effect of the target has use count 1,
  a basic attack leaves the target's health and defense points unchanged, removes that
  effect and returns the rejection log. When that effect was the only active effect of
  the target, a second basic attack (by any attacker \<open>self2\<close>, with any roll) is processed
  as a normal attack: it takes the critical or the plain damage from the health points
  and 1 from the defense points.
\<close>

theorem invincible_consumed_once:
  assumes inv: "get_active_effect (h target) Invincible = Some (i, e)"
    and once: "use_count e = 1"
    and es: "active_effects (h target) = Some es"
  shows "health_points (snd (basic_attack h self target roll) target) = health_points (h target)
         \<and> defense_points (snd (basic_attack h self target roll) target)
           = defense_points (h target)
         \<and> active_effects (snd (basic_attack h self target roll) target)
           = Some (remove_at i es)
         \<and> fst (basic_attack h self target roll)
           = name (h self) @ '''s attack was REJECTED due to '' @ name (h target) @ '''s ''
             @ effect_belongs_to e @ ''.''
         \<and> (es = [e] \<longrightarrow>
              health_points
                (snd (basic_attack (snd (basic_attack h self target roll)) self2 target roll2)
                   target)
              = health_points (h target)
                - (if roll2 \<le> luck (snd (basic_attack h self target roll) self2)
                   then 2 * attack_points (snd (basic_attack h self target roll) self2)
                   else max (attack_points (snd (basic_attack h self target roll) self2)
                             - defense_points (h target)) 0)
              \<and> defense_points
                (snd (basic_attack (snd (basic_attack h self target roll)) self2 target roll2)
                   target)
              = defense_points (h target) - 1)"
proof -
  let ?h1 = "snd (basic_attack h self target roll)"
  have step: "basic_attack h self target roll =
           (name (h self) @ '''s attack was REJECTED due to '' @ name (h target) @ '''s ''
              @ effect_belongs_to e @ ''.'',
            (h(self := (h self)\<lparr>speed_points := speed_points (h self) - 1\<rparr>))
              (target := ((h(self := (h self)\<lparr>speed_points := speed_points (h self) - 1\<rparr>)) target)
                 \<lparr>active_effects := Some (remove_at i es)\<rparr>))"
    using basic_attack_invincible [of h target es i e self roll] inv es once by simp
  have hp: "health_points (?h1 target) = health_points (h target)"
    and dp: "defense_points (?h1 target) = defense_points (h target)"
    and effects: "active_effects (?h1 target) = Some (remove_at i es)"
    by (simp_all add: step)
  have second: "health_points (snd (basic_attack ?h1 self2 target roll2) target)
              = health_points (h target)
                - (if roll2 \<le> luck (?h1 self2) then 2 * attack_points (?h1 self2)
                   else max (attack_points (?h1 self2) - defense_points (h target)) 0)
              \<and> defense_points (snd (basic_attack ?h1 self2 target roll2) target)
              = defense_points (h target) - 1"
    if single: "es = [e]"
  proof -
    from inv es have "i < length es"
      by (auto elim: get_active_effect_Some)
    moreover from single have "length es = 1"
      by simp
    ultimately have "i = 0"
      by simp
    with effects single have "active_effects (?h1 target) = Some []"
      by (simp add: remove_at_def)
    then have "get_active_effect (?h1 target) Invincible = None"
      and "get_active_effect (?h1 target) ReflectiveShield = None"
      by (simp_all add: no_effects_no_match)
    then show ?thesis
      using hp dp by (simp add: basic_attack_plain)
  qed
  show ?thesis
    using hp dp effects second by (simp add: step)
qed

text \<open>
  The mage holds one Invincible effect. The enemy's first attack is rejected and leaves the
  mage at 30 health and 5 defense points with no effect; its second attack (attack 8, roll
  50 against luck 10) takes 3 health points and 1 defense point.
\<close>

theorem invincible_consumed_once_witness:
  "get_active_effect (with_effects [Invincible_init] 0) Invincible = Some (0, Invincible_init)
   \<and> use_count Invincible_init = 1
   \<and> active_effects (with_effects [Invincible_init] 0) = Some [Invincible_init]
   \<and> health_points (snd (basic_attack (with_effects [Invincible_init]) 1 0 50) 0) = 30
   \<and> defense_points (snd (basic_attack (with_effects [Invincible_init]) 1 0 50) 0) = 5
   \<and> active_effects (snd (basic_attack (with_effects [Invincible_init]) 1 0 50) 0) = Some []
   \<and> fst (basic_attack (with_effects [Invincible_init]) 1 0 50)
     = ''Rat's attack was REJECTED due to Tom's Illusionary Aura.''
   \<and> health_points
       (snd (basic_attack (snd (basic_attack (with_effects [Invincible_init]) 1 0 50)) 1 0 50) 0)
     = 27
   \<and> defense_points
       (snd (basic_attack (snd (basic_attack (with_effects [Invincible_init]) 1 0 50)) 1 0 50) 0)
     = 4"
proof -
  have inv: "get_active_effect (with_effects [Invincible_init] 0) Invincible
      = Some (0, Invincible_init)"
    by (simp add: sample_stats get_active_effect_def Invincible_init_def)
  have once: "use_count Invincible_init = 1"
    by (simp add: Invincible_init_def)
  have es: "active_effects (with_effects [Invincible_init] 0) = Some [Invincible_init]"
    by (simp add: sample_stats)
  have attacker: "luck (snd (basic_attack (with_effects [Invincible_init]) 1 0 50) 1) = 10"
     "attack_points (snd (basic_attack (with_effects [Invincible_init]) 1 0 50) 1) = 8"
    using inv es by (simp_all add: basic_attack_invincible sample_stats)
  show ?thesis
    using invincible_consumed_once [of "with_effects [Invincible_init]" 0 0 Invincible_init
        "[Invincible_init]" 1 50 1 50] inv once es attacker
    by (simp add: sample_stats remove_at_def Invincible_init_def)
qed

text \<open>
  C5 as stated fails when the target holds a second Invincible effect. The mage that has
  used Illusionary Aura twice holds two of them, each with use count 1: the first attack
  consumes the first, and the second attack is rejected as well; it returns the rejection
  log and does not take the defense point a normal attack always takes.
\<close>

theorem stacked_invincible_counterexample:
  "get_active_effect (spent_heap 0) Invincible = Some (0, Invincible_init)
   \<and> use_count Invincible_init = 1
   \<and> fst (basic_attack (snd (basic_attack spent_heap 1 0 50)) 1 0 50)
     = ''Rat's attack was REJECTED due to Tom's Illusionary Aura.''
   \<and> health_points (snd (basic_attack (snd (basic_attack spent_heap 1 0 50)) 1 0 50) 0)
     = health_points (snd (basic_attack spent_heap 1 0 50) 0)
   \<and> defense_points (snd (basic_attack (snd (basic_attack spent_heap 1 0 50)) 1 0 50) 0)
     \<noteq> defense_points (snd (basic_attack spent_heap 1 0 50) 0) - 1"
  by (simp add: basic_attack_def get_active_effect_def spent_heap_def spent_player_def
      sample_heap_def sample_player_def sample_enemy_def Invincible_init_def store_effect_def
      remove_effect_def remove_at_def Let_def)

section \<open>The round loop: end of game, idle regeneration, turn order\<close>

text \<open>
  C6. \<open>is_game_over\<close> is true exactly when every member of at least one roster is not
  alive, and \<open>player_won\<close> returns true exactly when the game is over, some player
  character is alive and no enemy is alive.
\<close>

theorem game_end_criterion:
  "(is_game_over h gm \<longleftrightarrow>
      (\<forall>c \<in> set (player_characters gm). \<not> is_alive (h c))
      \<or> (\<forall>c \<in> set (enemies gm). \<not> is_alive (h c)))
   \<and> (fst (player_won h gm) \<longleftrightarrow>
        is_game_over h gm
        \<and> (\<exists>c \<in> set (player_characters gm). is_alive (h c))
        \<and> (\<forall>c \<in> set (enemies gm). \<not> is_alive (h c)))"
  by (auto simp add: is_game_over_def player_won_def list_ex_iff)

text \<open>
  With the enemy defeated the game is over and the player has won; with both alive the
  game is not over and \<open>player_won\<close> is false.
\<close>

theorem game_end_criterion_witness:
  "enemies sample_game = [1] \<and> player_characters sample_game = [0]
   \<and> \<not> is_alive ((sample_heap(1 := defeated sample_enemy)) 1)
   \<and> is_alive ((sample_heap(1 := defeated sample_enemy)) 0)
   \<and> is_alive (sample_heap 1)
   \<and> is_game_over (sample_heap(1 := defeated sample_enemy)) sample_game
   \<and> fst (player_won (sample_heap(1 := defeated sample_enemy)) sample_game)
   \<and> \<not> is_game_over sample_heap sample_game
   \<and> \<not> fst (player_won sample_heap sample_game)"
  using game_end_criterion [of "sample_heap(1 := defeated sample_enemy)" sample_game]
    game_end_criterion [of sample_heap sample_game]
  by (simp add: sample_game_def sample_heap_def sample_player_def sample_enemy_def
      defeated_def is_alive_def)

text \<open>
  C7. For an idle character that is an \<open>EnemyCharacter\<close> or has magic points (every
  other character has them from its constructor), \<open>update_idle_character_stats\<close> returns
  normally, adds exactly 1 to the speed points, leaves the defense points at
  \<open>max(old defense_points, 0)\<close>, hence not negative, and adds 1 to the magic points exactly
  when the character is not an \<open>EnemyCharacter\<close>.
\<close>

theorem idle_regeneration:
  assumes "cls c = EnemyCharacter \<or> magic_points c \<noteq> None"
  shows "\<exists>c'. update_idle_character_stats c = Inr c'
           \<and> speed_points c' = speed_points c + 1
           \<and> defense_points c' = max (defense_points c) 0
           \<and> 0 \<le> defense_points c'
           \<and> magic_points c' = (if cls c = EnemyCharacter then magic_points c
                                 else map_option (\<lambda>mp. mp + 1) (magic_points c))"
  using assms
  by (auto simp add: update_idle_character_stats_def Let_def split: option.splits)

text \<open>
  The mage with defense -2, speed 4 and 6 magic points is left with defense 0, speed 5 and
  7 magic points; the enemy gains a speed point and has no magic points before or after.
\<close>

theorem idle_regeneration_witness:
  "magic_points (sample_player\<lparr>defense_points := - 2\<rparr>) = Some 6
   \<and> (\<exists>c'. update_idle_character_stats (sample_player\<lparr>defense_points := - 2\<rparr>) = Inr c'
         \<and> speed_points c' = 5 \<and> defense_points c' = 0 \<and> magic_points c' = Some 7)
   \<and> cls sample_enemy = EnemyCharacter
   \<and> (\<exists>c'. update_idle_character_stats sample_enemy = Inr c'
         \<and> speed_points c' = 7 \<and> defense_points c' = 3 \<and> magic_points c' = None)"
  using idle_regeneration [of "sample_player\<lparr>defense_points := - 2\<rparr>"]
    idle_regeneration [of sample_enemy]
  by (auto simp add: sample_player_def sample_enemy_def)

text \<open>
  C8. When the two active characters differ in speed points, \<open>determine_turn_order\<close>
  returns the one with more speed points, whatever the two random numbers are.
\<close>

theorem turn_order_by_speed:
  assumes "speed_points (h (active_player_character gm))
             \<noteq> speed_points (h (active_enemy_character gm))"
  shows "determine_turn_order h gm r_enemy r_player =
           Inr (if speed_points (h (active_player_character gm))
                     > speed_points (h (active_enemy_character gm))
                then active_player_character gm else active_enemy_character gm)"
  using assms
  by (auto simp add: determine_turn_order_def sorted_reverse_def py_getitem_def Let_def)

text \<open>The enemy (speed 6) acts before the mage (speed 4) for either order of the draws.\<close>

theorem turn_order_by_speed_witness:
  "speed_points (sample_heap (active_player_character sample_game))
     \<noteq> speed_points (sample_heap (active_enemy_character sample_game))
   \<and> determine_turn_order sample_heap sample_game (1 / 4) (3 / 4) = Inr 1
   \<and> determine_turn_order sample_heap sample_game (3 / 4) (1 / 4) = Inr 1"
  using turn_order_by_speed [of sample_heap sample_game "1 / 4" "3 / 4"]
    turn_order_by_speed [of sample_heap sample_game "3 / 4" "1 / 4"]
  by (simp add: sample_game_def sample_heap_def sample_player_def sample_enemy_def)

section \<open>Restoring stats\<close>

text \<open>
  C1, as the code has it. For a character whose job class is a key of the job table (and
  of \<open>ascii_arts\<close>), \<open>restore_stats\<close> returns normally and sets health and defense points
  and their maxima to the values of the row; it also sets attack points, speed points,
  magic points and luck to the values of the row, whatever they were before the call.
  Name, class, job class, skills and active effects stay.
\<close>

theorem restore_stats_resets_all:
  assumes "job_class_attributes (job_class c) = Some attr"
    and "ascii_arts (job_class c) = Some art"
  shows "\<exists>c'. restore_stats job_class_attributes ascii_arts c = Inr c'
           \<and> health_points c' = job_HP attr \<and> max_health_points c' = Some (job_HP attr)
           \<and> defense_points c' = job_DP attr \<and> max_defense_points c' = Some (job_DP attr)
           \<and> attack_points c' = job_AP attr
           \<and> speed_points c' = job_SP attr
           \<and> magic_points c' = Some (job_MP attr)
           \<and> luck c' = job_Luck attr
           \<and> name c' = name c \<and> cls c' = cls c \<and> job_class c' = job_class c
           \<and> skills c' = skills c \<and> active_effects c' = active_effects c"
  using assms
  by (simp add: restore_stats_def assign_job_class_attributes_def Let_def)

text \<open>
  The spent mage, wounded to 12 health and -1 defense points, is restored to 30 health,
  5 defense, 10 attack, 4 speed and 6 magic points and luck 0.
\<close>

theorem restore_stats_resets_all_witness:
  "sample_job_class_attributes (job_class spent_player)
     = Some \<lparr>job_HP = 30, job_DP = 5, job_AP = 10, job_SP = 4, job_MP = 6, job_Luck = 0\<rparr>
   \<and> sample_ascii_arts (job_class spent_player) = Some []
   \<and> (\<exists>c'. restore_stats sample_job_class_attributes sample_ascii_arts
               (spent_player\<lparr>health_points := 12, defense_points := - 1\<rparr>) = Inr c'
         \<and> health_points c' = 30 \<and> defense_points c' = 5 \<and> attack_points c' = 10
         \<and> speed_points c' = 4 \<and> magic_points c' = Some 6 \<and> luck c' = 0)"
proof -
  have row: "sample_job_class_attributes (job_class spent_player)
     = Some \<lparr>job_HP = 30, job_DP = 5, job_AP = 10, job_SP = 4, job_MP = 6, job_Luck = 0\<rparr>"
    by (simp add: spent_job sample_job_class_attributes_def)
  have art: "sample_ascii_arts (job_class spent_player) = Some []"
    by (simp add: spent_job sample_ascii_arts_def)
  show ?thesis
    using restore_stats_resets_all [of sample_job_class_attributes
        "spent_player\<lparr>health_points := 12, defense_points := - 1\<rparr>" _ sample_ascii_arts "[]"]
      row art
    by auto
qed

text \<open>
  C1 as stated fails: the mage that has spent its speed and magic points (0 and 0 before
  the call) has 4 speed points and 6 magic points after \<open>restore_stats\<close>, the values of
  its row, not the values before the call.
\<close>

theorem restore_stats_counterexample:
  "speed_points spent_player = 0 \<and> magic_points spent_player = Some 0
   \<and> map_sum id speed_points
       (restore_stats sample_job_class_attributes sample_ascii_arts spent_player) = Inr 4
   \<and> map_sum id magic_points
       (restore_stats sample_job_class_attributes sample_ascii_arts spent_player)
     = Inr (Some 6)"
  by (simp add: restore_stats_def assign_job_class_attributes_def Let_def spent_job
      sample_job_class_attributes_def sample_ascii_arts_def,
      simp add: spent_player_def sample_player_def)

section \<open>Errors of use_skill\<close>

text \<open>
  C2, as the code has it. Let the index select a skill of the caster that requires a
  target, and let no target be given. When the caster's speed points, or else its magic
  points, are below the cost of the skill, \<open>use_skill\<close> returns the pair
  \<open>(False, reason)\<close> and changes nothing. Otherwise it prints that the skill requires a
  target and returns \<open>None\<close> without using the skill: every other object is unchanged, and
  so is every attribute of the caster other than \<open>speed_points\<close> and \<open>magic_points\<close>.
\<close>

theorem use_skill_without_target:
  assumes sks: "skills (h self) = Some sks"
    and sk: "py_getitem sks i = Inr sk"
    and req: "require_target sk"
    and mp: "magic_points (h self) = Some mp"
  shows "(speed_points (h self) < speed_points_cost sk \<longrightarrow>
            use_skill h self i None n k
              = Inr (ReturnedPair False
                       (''Not enough speed points. You need '' @ str_int (speed_points_cost sk)
                        @ '' but only have '' @ str_int (speed_points (h self)) @ ''.''),
                     [], h))
         \<and> (speed_points_cost sk \<le> speed_points (h self) \<and> mp < magic_points_cost sk \<longrightarrow>
            use_skill h self i None n k
              = Inr (ReturnedPair False
                       (''Not enough magic points. You need '' @ str_int (magic_points_cost sk)
                        @ '' but only have '' @ str_int mp @ ''.''),
                     [], h))
         \<and> (speed_points_cost sk \<le> speed_points (h self) \<and> magic_points_cost sk \<le> mp \<longrightarrow>
            (\<exists>h'. use_skill h self i None n k
                     = Inr (ReturnedNone, [''Skill requires a target argument.''], h')
                  \<and> (\<forall>r. r \<noteq> self \<longrightarrow> h' r = h r)
                  \<and> (h' self)\<lparr>speed_points := speed_points (h self),
                                magic_points := magic_points (h self)\<rparr> = h self))"
  using assms py_getitem_below [OF sk]
  by (auto simp add: use_skill_def check_skill_cost_def Let_def)

text \<open>
  The mage uses its Reflective Shield skill (index 1, requires a target, costs 2 speed and
  4 magic points) without a target: with 4 speed and 6 magic points the missing target is
  reported, with 1 speed point the lack of speed points is.
\<close>

theorem use_skill_without_target_witness:
  "skills (sample_heap 0) = Some [sample_aura, sample_shield]
   \<and> py_getitem [sample_aura, sample_shield] 1 = Inr sample_shield
   \<and> require_target sample_shield
   \<and> magic_points (sample_heap 0) = Some 6
   \<and> speed_points_cost sample_shield \<le> speed_points (sample_heap 0)
   \<and> magic_points_cost sample_shield \<le> 6
   \<and> (\<exists>h'. use_skill sample_heap 0 1 None 0 0
              = Inr (ReturnedNone, [''Skill requires a target argument.''], h')
          \<and> h' 1 = sample_enemy
          \<and> (h' 0)\<lparr>speed_points := 4, magic_points := Some 6\<rparr> = sample_player)
   \<and> speed_points ((sample_heap(0 := sample_player\<lparr>speed_points := 1\<rparr>)) 0)
     < speed_points_cost sample_shield
   \<and> use_skill (sample_heap(0 := sample_player\<lparr>speed_points := 1\<rparr>)) 0 1 None 0 0
     = Inr (ReturnedPair False ''Not enough speed points. You need 2 but only have 1.'', [],
            sample_heap(0 := sample_player\<lparr>speed_points := 1\<rparr>))"
  using use_skill_without_target [of sample_heap 0 "[sample_aura, sample_shield]" 1
      sample_shield 6 0 0]
    use_skill_without_target [of "sample_heap(0 := sample_player\<lparr>speed_points := 1\<rparr>)" 0
      "[sample_aura, sample_shield]" 1 sample_shield 6 0 0]
  by (auto simp add: sample_heap_player sample_player_fields py_getitem_sample
      sample_shield_fields low_fields str_int_small)

text \<open>
  C2 as stated fails twice for the Reflective Shield skill used without a target. A mage
  with 1 speed point gets the pair \<open>(False, "Not enough speed points...")\<close>, not the
  missing-target report. A mage with 4 speed and 6 magic points gets the missing-target
  report, and is left with 2 speed and 2 magic points: the cost is deducted before the
  target is checked.
\<close>

theorem use_skill_without_target_counterexample:
  "skills (sample_heap 0) = Some [sample_aura, sample_shield]
   \<and> require_target sample_shield
   \<and> use_skill (sample_heap(0 := sample_player\<lparr>speed_points := 1\<rparr>)) 0 1 None 0 0
     = Inr (ReturnedPair False ''Not enough speed points. You need 2 but only have 1.'', [],
            sample_heap(0 := sample_player\<lparr>speed_points := 1\<rparr>))
   \<and> use_skill sample_heap 0 1 None 0 0
     = Inr (ReturnedNone, [''Skill requires a target argument.''],
            sample_heap(0 := sample_player\<lparr>speed_points := 2, magic_points := Some 2\<rparr>))
   \<and> speed_points (sample_heap 0) = 4 \<and> magic_points (sample_heap 0) = Some 6"
  by (simp add: use_skill_def check_skill_cost_def Let_def sample_heap_player
      sample_player_fields py_getitem_sample sample_shield_fields low_fields str_int_small)

text \<open>
  C9 at negative indices. The guard of \<open>use_skill\<close> tests \<open>skill_index >= len(self.skills)\<close>
  only. For the mage with its two skills, index -3 is no position of the list and the
  subscript raises IndexError, which nothing catches, instead of the report; index -1
  selects the last skill, which is used on the target and paid for.
\<close>

theorem use_skill_negative_index:
  "skills (sample_heap 0) = Some [sample_aura, sample_shield]
   \<and> use_skill sample_heap 0 (- 3) (Some 1) 0 0 = Inl IndexError
   \<and> use_skill sample_heap 0 (- 1) (Some 1) 0 0
     = Inr (ReturnedLog (''A shimmering shield envelops Tom, ready to reflect incoming ''
                         @ ''physical damage from Rat.\<newline>(reflective shield effect activated)''),
            [],
            sample_heap(0 := sample_player\<lparr>speed_points := 2, magic_points := Some 2,
                                           active_effects := Some [ReflectiveShield_init]\<rparr>))"
  by (simp add: use_skill_def check_skill_cost_def Let_def sample_heap_player
      sample_player_fields py_getitem_sample sample_shield_fields use_def
      ReflectiveShield_use_def random_choice_def sample_enemy_def)

end
